theory Spec2Isabelle
  imports Complex_Main "HOL-Library.Sublist"
begin

section \<open>Python values used by \<open>scRNA_qc.py\<close>\<close>

text \<open>
  Exceptions are values. \<open>OSError\<close> stands for the class and all of its subclasses
  (\<open>FileExistsError\<close>, \<open>PermissionError\<close>, ...) and carries the errno symbol;
  \<open>HelperError\<close> is whatever a helper imported from \<open>MAESTRO.scATAC_H5Process\<close> raises;
  \<open>SystemExit\<close> is how \<open>argparse\<close> ends the process on a usage error.
\<close>

datatype exn =
    OSError string
  | IndexError
  | ValueError
  | UnboundLocalError string
  | HelperError string
  | SystemExit nat

definition exn_bind :: "exn + 'a \<Rightarrow> ('a \<Rightarrow> exn + 'b) \<Rightarrow> exn + 'b" where
  "exn_bind m f = (case m of Inl e \<Rightarrow> Inl e | Inr x \<Rightarrow> f x)"

text \<open>A list comprehension whose body may raise: the first exception ends it.\<close>

fun mapM :: "('a \<Rightarrow> exn + 'b) \<Rightarrow> 'a list \<Rightarrow> exn + 'b list" where
  "mapM f [] = Inr []"
| "mapM f (x # xs) = exn_bind (f x) (\<lambda>y. exn_bind (mapM f xs) (\<lambda>ys. Inr (y # ys)))"

text \<open>\<open>xs[i]\<close>: negative indices count from the end, out of range raises.\<close>

definition py_index :: "'a list \<Rightarrow> int \<Rightarrow> exn + 'a" where
  "py_index xs i =
     (if 0 \<le> i \<and> i < int (length xs) then Inr (xs ! nat i)
      else if i < 0 \<and> - int (length xs) \<le> i then Inr (xs ! nat (int (length xs) + i))
      else Inl IndexError)"

text \<open>\<open>xs[a:b]\<close>: negative bounds count from the end, every bound is clamped.\<close>

definition py_slice :: "'a list \<Rightarrow> int \<Rightarrow> int \<Rightarrow> 'a list" where
  "py_slice xs a b =
     (let n = int (length xs);
          lo = (if a < 0 then max 0 (a + n) else min a n);
          hi = (if b < 0 then max 0 (b + n) else min b n)
      in take (nat hi - nat lo) (drop (nat lo) xs))"

text \<open>
  \<open>s.split(sep)\<close>: the separator is searched from the left, occurrences do not overlap,
  and the result always has at least one field. An empty separator raises.
  \<open>cur\<close> holds the characters of the current field, last one first.
\<close>

function split_fields :: "string \<Rightarrow> string \<Rightarrow> string \<Rightarrow> string list" where
  "split_fields sep cur [] = [rev cur]"
| "split_fields sep cur (c # cs) =
     (if sep \<noteq> [] \<and> prefix sep (c # cs)
      then rev cur # split_fields sep [] (drop (length sep) (c # cs))
      else split_fields sep (c # cur) cs)"
  by pat_completeness auto
termination
  by (relation "measure (\<lambda>(sep, cur, s). length s)") auto

definition py_split :: "string \<Rightarrow> string \<Rightarrow> exn + string list" where
  "py_split s sep = (if sep = [] then Inl ValueError else Inr (split_fields sep [] s))"

text \<open>\<open>sep.join(xs)\<close>.\<close>

fun py_join :: "string \<Rightarrow> string list \<Rightarrow> string" where
  "py_join sep [] = []"
| "py_join sep [x] = x"
| "py_join sep (x # y # ys) = x @ sep @ py_join sep (y # ys)"

text \<open>\<open>int(x)\<close> of a number: the fractional part is dropped, towards zero.\<close>

definition py_int :: "rat \<Rightarrow> int" where
  "py_int x = (if 0 \<le> x then \<lfloor>x\<rfloor> else \<lceil>x\<rceil>)"

text \<open>\<open>str(n)\<close> of an integer: decimal digits, a minus sign when negative.\<close>

definition digit_char :: "nat \<Rightarrow> char" where
  "digit_char d = ''0123456789'' ! d"

fun str_nat :: "nat \<Rightarrow> string" where
  "str_nat n = (if n < 10 then [digit_char n] else str_nat (n div 10) @ [digit_char (n mod 10)])"

declare str_nat.simps [simp del]

definition str_int :: "int \<Rightarrow> string" where
  "str_int i = (if i < 0 then CHR ''-'' # str_nat (nat (- i)) else str_nat (nat i))"

definition tab :: string where
  "tab = [CHR 0x09]"

definition newline :: string where
  "newline = [CHR 0x0A]"

text \<open>\<open>os.path.join(a, b)\<close> on a POSIX system.\<close>

definition path_join :: "string \<Rightarrow> string \<Rightarrow> string" where
  "path_join a b =
     (if b \<noteq> [] \<and> hd b = CHR ''/'' then b
      else if a = [] \<or> last a = CHR ''/'' then a @ b
      else a @ ''/'' @ b)"

section \<open>The count matrix\<close>

text \<open>
  A matrix is stored by columns, one column per cell, with the number of rows kept apart
  so that a matrix without columns still has its features. Entries are exact rationals:
  the rounding of \<open>float32\<close> storage is not part of this model. Every matrix that
  \<open>scipy\<close> builds is well formed: all columns have \<open>n_rows\<close> entries.
\<close>

record matrix =
  n_rows :: nat
  columns :: "rat list list"

definition n_cols :: "matrix \<Rightarrow> nat" where
  "n_cols M = length (columns M)"

definition wf_matrix :: "matrix \<Rightarrow> bool" where
  "wf_matrix M = list_all (\<lambda>c. length c = n_rows M) (columns M)"

text \<open>\<open>M.sum(axis=0)\<close>: one sum per column.\<close>

definition sum_axis0 :: "matrix \<Rightarrow> rat list" where
  "sum_axis0 M = map sum_list (columns M)"

text \<open>\<open>(M > 0).sum(axis=0)\<close>: the comparison gives a Boolean matrix, whose sum counts \<open>True\<close>.\<close>

definition gt0_sum_axis0 :: "matrix \<Rightarrow> int list" where
  "gt0_sum_axis0 M = map (\<lambda>c. sum_list (map (\<lambda>x. if 0 < x then 1 else 0) c)) (columns M)"

text \<open>\<open>numpy.nonzero\<close> of a Boolean vector: the positions holding \<open>True\<close>, ascending.\<close>

definition nonzero :: "bool list \<Rightarrow> nat list" where
  "nonzero m = filter (\<lambda>i. m ! i) [0..<length m]"

text \<open>
  \<open>M[np.ix_(rmask, cmask)]\<close>: \<open>np.ix_\<close> turns each Boolean list into its \<open>nonzero\<close>
  positions, and the matrix is indexed by the open mesh of both; a position outside the
  matrix raises.
\<close>

definition ix_getitem :: "matrix \<Rightarrow> bool list \<Rightarrow> bool list \<Rightarrow> exn + matrix" where
  "ix_getitem M rmask cmask =
     (let ridx = nonzero rmask; cidx = nonzero cmask
      in if list_all (\<lambda>i. i < n_rows M) ridx \<and> list_all (\<lambda>j. j < n_cols M) cidx
         then Inr \<lparr>n_rows = length ridx,
                   columns = map (\<lambda>j. map (\<lambda>i. columns M ! j ! i) ridx) cidx\<rparr>
         else Inl IndexError)"

text \<open>
  \<open>np.array(xs)[m].tolist()\<close> for a Python list \<open>m\<close> of Booleans: an empty \<open>m\<close> is an
  empty integer index, otherwise \<open>m\<close> is a mask that must be as long as \<open>xs\<close>.
  The conversion of the strings to a \<open>numpy\<close> array and back is taken as the identity
  (it is, for names that do not end in a NUL character).
\<close>

definition mask_getitem :: "'a list \<Rightarrow> bool list \<Rightarrow> exn + 'a list" where
  "mask_getitem xs m =
     (if m = [] then Inr []
      else if length m \<noteq> length xs then Inl IndexError
      else Inr (map (\<lambda>i. xs ! i) (nonzero m)))"

section \<open>Files and the outside world\<close>

record h5file =
  h5_matrix :: matrix
  h5_features :: "string list"
  h5_barcodes :: "string list"
  h5_genome :: string
  h5_datatype :: string

datatype content = Text string | Container h5file

record world =
  dirs :: "string set"
  files :: "string \<rightharpoonup> content"

text \<open>What a loader returns. The names of an HDF5 container are all text or all bytes.\<close>

record loaded =
  ld_matrix :: matrix
  ld_features :: "string list"
  ld_barcodes :: "string list"

datatype names = StrNames "string list" | BytesNames "string list"

record loaded_h5 =
  lh_matrix :: matrix
  lh_names :: names
  lh_barcodes :: names

text \<open>
  Everything the program cannot decide by itself is a field of the environment: whether
  the operating system refuses a call, what the loaders of \<open>MAESTRO.scATAC_H5Process\<close>
  return for a path, and how \<open>float32\<close> rounds. The theorems hold for every environment.
\<close>

record env =
  makedirs_fault :: "world \<Rightarrow> string \<Rightarrow> exn option"
  open_fault :: "world \<Rightarrow> string \<Rightarrow> exn option"
  write_fault :: "world \<Rightarrow> string \<Rightarrow> h5file \<Rightarrow> exn option"
  read_count :: "string \<Rightarrow> exn + loaded"
  read_10X_h5 :: "string \<Rightarrow> exn + loaded_h5"
  read_10X_mtx :: "string \<Rightarrow> string \<Rightarrow> string \<Rightarrow> int \<Rightarrow> exn + loaded"
  float32 :: "rat \<Rightarrow> rat"

text \<open>
  \<open>os.makedirs(d)\<close>: a path that exists already, as a directory or as a file, raises
  \<open>FileExistsError\<close>; otherwise the system may refuse, or the directory is created.
\<close>

definition os_makedirs :: "env \<Rightarrow> string \<Rightarrow> world \<Rightarrow> exn option \<times> world" where
  "os_makedirs env d w =
     (if d \<in> dirs w \<or> d \<in> dom (files w) then (Some (OSError ''EEXIST''), w)
      else case makedirs_fault env w d of
             Some e \<Rightarrow> (Some e, w)
           | None \<Rightarrow> (None, w\<lparr>dirs := insert d (dirs w)\<rparr>))"

text \<open>
  Modelled from the spec: \<open>write_10X_h5\<close>, the container writer that \<open>scRNA_qc.py\<close>
  imports from \<open>MAESTRO.scATAC_H5Process\<close>. It persists the matrix, the feature names,
  the barcode names, the genome tag and the content-type tag in one container at the
  given path. A write that fails is taken to leave no container behind.
\<close>

definition write_10X_h5 :: "env \<Rightarrow> string \<Rightarrow> h5file \<Rightarrow> world \<Rightarrow> (exn + unit) \<times> world" where
  "write_10X_h5 env path c w =
     (case write_fault env w path c of
        Some e \<Rightarrow> (Inl e, w)
      | None \<Rightarrow> (Inr (), w\<lparr>files := (files w)(path \<mapsto> Container c)\<rparr>))"

section \<open>\<open>FilterCell\<close>\<close>

definition header :: string where
  "header = ''Cell'' @ tab @ ''Count'' @ tab @ ''Gene'' @ newline"

text \<open>
  The loop of lines 65 to 68 over \<open>range(count_gene.shape[1])\<close>. \<open>out\<close> is what has been
  written so far; \<open>barcode[i]\<close> raises when the barcode list is too short, and the text
  written before stays in the file.
\<close>

fun stat_loop :: "rat list list \<Rightarrow> string list \<Rightarrow> nat list \<Rightarrow> string \<Rightarrow> exn option \<times> string" where
  "stat_loop count_gene barcode [] out = (None, out)"
| "stat_loop count_gene barcode (i # is) out =
     (let stat_list = map (\<lambda>r. r ! i) (py_slice count_gene 0 2);
          stat_list = map (\<lambda>j. str_int (py_int j)) stat_list
      in case py_index barcode (int i) of
           Inl e \<Rightarrow> (Some e, out)
         | Inr b \<Rightarrow> stat_loop count_gene barcode is
                     (out @ b @ tab @ py_join tab stat_list @ newline))"

text \<open>
  Lines 61 to 68: \<open>open(statfile, "w")\<close> may be refused; otherwise the file holds what the
  loop wrote when the \<open>with\<close> block is left, by its end or by an exception.
\<close>

definition write_stat :: "env \<Rightarrow> string \<Rightarrow> rat list list \<Rightarrow> string list \<Rightarrow> world \<Rightarrow> exn option \<times> world" where
  "write_stat env statfile count_gene barcode w =
     (case open_fault env w statfile of
        Some e \<Rightarrow> (Some e, w)
      | None \<Rightarrow>
          (case stat_loop count_gene barcode [0..<length (count_gene ! 0)] header of
             (r, out) \<Rightarrow> (r, w\<lparr>files := (files w)(statfile \<mapsto> Text out)\<rparr>)))"

text \<open>Line 70: the mask of the cells that pass both cutoffs.\<close>

definition passed_cell :: "matrix \<Rightarrow> int \<Rightarrow> int \<Rightarrow> bool list" where
  "passed_cell rawmatrix count_cutoff gene_cutoff =
     map2 (\<lambda>c g. of_int count_cutoff < c \<and> gene_cutoff < g)
       (sum_axis0 rawmatrix) (gt0_sum_axis0 rawmatrix)"

text \<open>Lines 71 and 72: every row is kept, the columns are those of the mask.\<close>

definition passed_cell_matrix :: "matrix \<Rightarrow> int \<Rightarrow> int \<Rightarrow> exn + matrix" where
  "passed_cell_matrix rawmatrix count_cutoff gene_cutoff =
     (let gene = replicate (n_rows rawmatrix) True
      in ix_getitem rawmatrix gene (passed_cell rawmatrix count_cutoff gene_cutoff))"

text \<open>Line 74: the barcodes of the mask.\<close>

definition passed_barcodes :: "matrix \<Rightarrow> string list \<Rightarrow> int \<Rightarrow> int \<Rightarrow> exn + string list" where
  "passed_barcodes rawmatrix barcode count_cutoff gene_cutoff =
     mask_getitem barcode (passed_cell rawmatrix count_cutoff gene_cutoff)"

definition FilterCell ::
  "env \<Rightarrow> matrix \<Rightarrow> string list \<Rightarrow> string list \<Rightarrow> int \<Rightarrow> int \<Rightarrow> string \<Rightarrow> string \<Rightarrow> world
     \<Rightarrow> (exn + unit) \<times> world" where
  "FilterCell env rawmatrix feature barcode count_cutoff gene_cutoff outprefix species w =
     (let count_per_cell = sum_axis0 rawmatrix;
          genes_per_cell = gt0_sum_axis0 rawmatrix;
          count_gene = [count_per_cell, map of_int genes_per_cell];
          statfile = outprefix @ ''_count_gene_stat.txt''
      in case write_stat env statfile count_gene barcode w of
           (Some e, w1) \<Rightarrow> (Inl e, w1)
         | (None, w1) \<Rightarrow>
             (case passed_cell_matrix rawmatrix count_cutoff gene_cutoff of
                Inl e \<Rightarrow> (Inl e, w1)
              | Inr m \<Rightarrow>
                  (case passed_barcodes rawmatrix barcode count_cutoff gene_cutoff of
                     Inl e \<Rightarrow> (Inl e, w1)
                   | Inr bs \<Rightarrow>
                       write_10X_h5 env (outprefix @ ''_filtered_gene_count.h5'')
                         \<lparr>h5_matrix = m, h5_features = feature, h5_barcodes = bs,
                          h5_genome = species, h5_datatype = ''Gene''\<rparr> w1)))"

section \<open>\<open>scrna_qc\<close>\<close>

text \<open>
  Lines 96 and 97 for the features, 98 and 99 for the barcodes: the first character of
  the first name decides for the whole list. \<open>names[0][0]\<close> raises on an empty list and on
  an empty first name.
\<close>

definition strip_quotes :: "string list \<Rightarrow> exn + string list" where
  "strip_quotes names =
     exn_bind (py_index names 0) (\<lambda>first.
     exn_bind (py_index first 0) (\<lambda>c.
       if c = CHR 0x22 \<or> c = CHR 0x27
       then Inr (map (\<lambda>i. py_slice i 1 (int (length i) - 1)) names)
       else Inr names))"

text \<open>Line 101: \<open>i.split('_')[-1]\<close>.\<close>

definition feature_name :: "string \<Rightarrow> exn + string" where
  "feature_name i = exn_bind (py_split i ''_'') (\<lambda>p. py_index p (- 1))"

text \<open>Line 102: \<open>i.split('/')[-1].split('.genes.results')[0]\<close>.\<close>

definition barcode_name :: "string \<Rightarrow> exn + string" where
  "barcode_name i =
     exn_bind (py_split i ''/'') (\<lambda>p.
     exn_bind (py_index p (- 1)) (\<lambda>l.
     exn_bind (py_split l ''.genes.results'') (\<lambda>q. py_index q 0)))"

text \<open>Lines 96 to 102: the names of a plain-text table as they are stored.\<close>

definition plain_names :: "string list \<Rightarrow> string list \<Rightarrow> exn + string list \<times> string list" where
  "plain_names features barcodes =
     exn_bind (strip_quotes features) (\<lambda>features1.
     exn_bind (strip_quotes barcodes) (\<lambda>barcodes1.
     exn_bind (mapM feature_name features1) (\<lambda>features2.
     exn_bind (mapM barcode_name barcodes1) (\<lambda>barcodes2.
       Inr (features2, barcodes2)))))"

text \<open>Line 92: the dense table becomes a sparse \<open>float32\<close> matrix.\<close>

definition csc_float32 :: "env \<Rightarrow> matrix \<Rightarrow> matrix" where
  "csc_float32 env M = M\<lparr>columns := map (map (float32 env)) (columns M)\<rparr>"

text \<open>
  Lines 110 to 113: \<open>type(names[0]) == bytes\<close> raises on an empty list; bytes are decoded,
  text is kept. A string of this model is its bytes, so decoding does not change it
  (a decoding error is not modelled).
\<close>

definition decode_names :: "names \<Rightarrow> exn + string list" where
  "decode_names ns =
     (case ns of
        BytesNames xs \<Rightarrow> exn_bind (py_index xs 0) (\<lambda>first. Inr xs)
      | StrNames xs \<Rightarrow> exn_bind (py_index xs 0) (\<lambda>first. Inr xs))"

text \<open>
  Lines 89 to 119: the three branches. The result is the triple of local variables
  \<open>rawmatrix\<close>, \<open>features\<close>, \<open>barcodes\<close>, or \<open>None\<close> when no branch has assigned them.
\<close>

definition load_matrix ::
  "env \<Rightarrow> string \<Rightarrow> string \<Rightarrow> string \<Rightarrow> int \<Rightarrow> string
     \<Rightarrow> exn + (matrix \<times> string list \<times> string list) option" where
  "load_matrix env fileformat matrix feature gene_column barcode =
     (if fileformat = ''plain'' then
        exn_bind (read_count env matrix) (\<lambda>matrix_dict.
          let rawmatrix = csc_float32 env (ld_matrix matrix_dict)
          in exn_bind (plain_names (ld_features matrix_dict) (ld_barcodes matrix_dict))
               (\<lambda>(features, barcodes). Inr (Some (rawmatrix, features, barcodes))))
      else if fileformat = ''h5'' then
        exn_bind (read_10X_h5 env matrix) (\<lambda>scrna_count.
        exn_bind (decode_names (lh_names scrna_count)) (\<lambda>features.
        exn_bind (decode_names (lh_barcodes scrna_count)) (\<lambda>barcodes.
          Inr (Some (lh_matrix scrna_count, features, barcodes)))))
      else if fileformat = ''mtx'' then
        exn_bind (read_10X_mtx env matrix feature barcode gene_column) (\<lambda>matrix_dict.
          Inr (Some (ld_matrix matrix_dict, ld_features matrix_dict, ld_barcodes matrix_dict)))
      else Inr None)"

text \<open>
  Lines 89 to 123, in the world that \<open>os.makedirs\<close> left. Reading \<open>rawmatrix\<close> at line 123
  when no branch has assigned it raises \<open>UnboundLocalError\<close>.
\<close>

definition load_and_filter ::
  "env \<Rightarrow> string \<Rightarrow> string \<Rightarrow> string \<Rightarrow> string \<Rightarrow> string \<Rightarrow> int \<Rightarrow> string \<Rightarrow> int \<Rightarrow> int
     \<Rightarrow> string \<Rightarrow> world \<Rightarrow> (exn + unit) \<times> world" where
  "load_and_filter env directory outprefix fileformat matrix feature gene_column barcode
       count_cutoff gene_cutoff species w =
     (case load_matrix env fileformat matrix feature gene_column barcode of
        Inl e \<Rightarrow> (Inl e, w)
      | Inr None \<Rightarrow> (Inl (UnboundLocalError ''rawmatrix''), w)
      | Inr (Some (rawmatrix, features, barcodes)) \<Rightarrow>
          (let filename = path_join directory outprefix
           in FilterCell env rawmatrix features barcodes count_cutoff gene_cutoff
                filename species w))"

fun is_OSError :: "exn \<Rightarrow> bool" where
  "is_OSError (OSError errno) = True"
| "is_OSError e = False"

text \<open>
  The whole function. Lines 82 to 87: an \<open>OSError\<close> of \<open>os.makedirs\<close> is caught and
  dropped; any other exception leaves the function.
\<close>

definition scrna_qc ::
  "env \<Rightarrow> string \<Rightarrow> string \<Rightarrow> string \<Rightarrow> string \<Rightarrow> string \<Rightarrow> int \<Rightarrow> string \<Rightarrow> int \<Rightarrow> int
     \<Rightarrow> string \<Rightarrow> world \<Rightarrow> (exn + unit) \<times> world" where
  "scrna_qc env directory outprefix fileformat matrix feature gene_column barcode
       count_cutoff gene_cutoff species w =
     (case os_makedirs env directory w of
        (Some e, w1) \<Rightarrow>
          if is_OSError e
          then load_and_filter env directory outprefix fileformat matrix feature gene_column
                 barcode count_cutoff gene_cutoff species w1
          else (Inl e, w1)
      | (None, w1) \<Rightarrow>
          load_and_filter env directory outprefix fileformat matrix feature gene_column
            barcode count_cutoff gene_cutoff species w1)"

section \<open>The \<open>--format\<close> option of \<open>scrnaqc_parser\<close>\<close>

text \<open>
  Lines 23 to 25: \<open>default = ""\<close> and \<open>choices = ["h5", "mtx", "plain"]\<close>. \<open>argparse\<close> checks
  a value given on the command line against the choices and ends the process with
  status 2 when it is not among them; a default is stored as it is, without that check.
  The argument is \<open>None\<close> when the option is absent from the command line.
\<close>

definition format_choices :: "string list" where
  "format_choices = [''h5'', ''mtx'', ''plain'']"

definition parse_format :: "string option \<Rightarrow> exn + string" where
  "parse_format arg =
     (case arg of
        None \<Rightarrow> Inr ''''
      | Some v \<Rightarrow> if v \<in> set format_choices then Inr v else Inl (SystemExit 2))"

section \<open>The quantities the specification names\<close>

text \<open>
  The total count of a cell is the sum of its column, its feature count the number of
  strictly positive entries of its column, and a cell passes when both are strictly
  above their cutoffs. These follow the specification's words; \<open>FilterCell\<close> computes
  them by \<open>sum_axis0\<close>, \<open>gt0_sum_axis0\<close> and \<open>passed_cell\<close>.
\<close>

definition spec_total_count :: "rat list \<Rightarrow> rat" where
  "spec_total_count c = sum_list c"

definition spec_feature_count :: "rat list \<Rightarrow> int" where
  "spec_feature_count c = int (length (filter (\<lambda>x. 0 < x) c))"

definition spec_passes :: "int \<Rightarrow> int \<Rightarrow> rat list \<Rightarrow> bool" where
  "spec_passes cc gc c = (of_int cc < spec_total_count c \<and> gc < spec_feature_count c)"

text \<open>A row of the statistics report, and the report of a matrix and its barcodes.\<close>

definition spec_stat_row :: "string \<Rightarrow> rat list \<Rightarrow> string" where
  "spec_stat_row b c =
     b @ tab @ str_int (py_int (spec_total_count c)) @ tab @ str_int (spec_feature_count c) @ newline"

definition spec_stat_report :: "matrix \<Rightarrow> string list \<Rightarrow> string" where
  "spec_stat_report M barcode =
     header @ concat (map (\<lambda>i. spec_stat_row (barcode ! i) (columns M ! i)) [0..<n_cols M])"

text \<open>The two files that \<open>FilterCell\<close> writes under its path prefix.\<close>

definition stat_path :: "string \<Rightarrow> string" where
  "stat_path outprefix = outprefix @ ''_count_gene_stat.txt''"

definition h5_path :: "string \<Rightarrow> string" where
  "h5_path outprefix = outprefix @ ''_filtered_gene_count.h5''"

text \<open>
  The part of a name after the last occurrence of a character (the whole name when the
  character does not occur), the part of a name before the first occurrence of a
  separator (the whole name when the separator does not occur), and the trimming that
  the first character of the first name of a list switches on.
\<close>

definition after_last :: "char \<Rightarrow> string \<Rightarrow> string" where
  "after_last c s = rev (takeWhile (\<lambda>x. x \<noteq> c) (rev s))"

fun up_to_first :: "string \<Rightarrow> string \<Rightarrow> string" where
  "up_to_first sep [] = []"
| "up_to_first sep (x # xs) = (if prefix sep (x # xs) then [] else x # up_to_first sep xs)"

definition trim_if_quoted :: "char \<Rightarrow> string \<Rightarrow> string" where
  "trim_if_quoted c i = (if c = CHR 0x22 \<or> c = CHR 0x27 then butlast (tl i) else i)"

text \<open>
  The stored names as the specification words them: leading and trailing quote characters
  are stripped, a feature name is what follows its last underscore, a barcode name is what
  follows its last path separator without a trailing \<open>.genes.results\<close>.
\<close>

definition spec_unquote :: "string \<Rightarrow> string" where
  "spec_unquote s =
     (let s1 = (if s \<noteq> [] \<and> (hd s = CHR 0x22 \<or> hd s = CHR 0x27) then tl s else s)
      in if s1 \<noteq> [] \<and> (last s1 = CHR 0x22 \<or> last s1 = CHR 0x27) then butlast s1 else s1)"

definition spec_feature_name :: "string \<Rightarrow> string" where
  "spec_feature_name s = after_last CHR ''_'' (spec_unquote s)"

definition spec_barcode_name :: "string \<Rightarrow> string" where
  "spec_barcode_name s =
     (let b = after_last CHR ''/'' (spec_unquote s)
      in if suffix ''.genes.results'' b then take (length b - length ''.genes.results'') b else b)"

section \<open>Examples\<close>

definition example_matrix :: matrix where
  "example_matrix = \<lparr>n_rows = 2, columns = [[3, 0], [1, 1], [5, 5 / 2]]\<rparr>"

definition example_env :: env where
  "example_env =
     \<lparr>makedirs_fault = (\<lambda>w d. if d = ''denied'' then Some (OSError ''EACCES'') else None),
      open_fault = (\<lambda>w p. if prefix ''denied/'' p then Some (OSError ''ENOENT'') else None),
      write_fault = (\<lambda>w p c. if prefix ''full/'' p then Some (OSError ''ENOSPC'') else None),
      read_count = (\<lambda>p. Inl (HelperError ''no such file'')),
      read_10X_h5 = (\<lambda>p. if p = ''matrix.h5''
                        then Inr \<lparr>lh_matrix = example_matrix,
                                  lh_names = BytesNames [''G1'', ''G2''],
                                  lh_barcodes = StrNames [''AAAC'', ''AAAG'', ''AAAT'']\<rparr>
                        else Inl (HelperError ''no such file'')),
      read_10X_mtx = (\<lambda>m f b g. Inl (HelperError ''no such file'')),
      float32 = (\<lambda>x. x)\<rparr>"

definition empty_world :: world where
  "empty_world = \<lparr>dirs = {}, files = Map.empty\<rparr>"

definition example_barcodes :: "string list" where
  "example_barcodes = [''AAAC'', ''AAAG'', ''AAAT'']"

section \<open>Masks and selections\<close>

lemma indicator_sum: "sum_list (map (\<lambda>x. if P x then 1 else 0) c) = int (length (filter P c))"
  by (induction c) auto

lemma map2_same: "map2 f (map g xs) (map h xs) = map (\<lambda>x. f (g x) (h x)) xs"
  by (induction xs) simp_all

lemma passed_cell_map: "passed_cell M cc gc = map (spec_passes cc gc) (columns M)"
  unfolding passed_cell_def sum_axis0_def gt0_sum_axis0_def map2_same
  by (simp add: spec_passes_def spec_total_count_def spec_feature_count_def indicator_sum)

lemma nonzero_snoc:
  "nonzero (m @ [b]) = nonzero m @ (if b then [length m] else [])"
proof -
  have "filter (\<lambda>i. (m @ [b]) ! i) [0..<length m] = filter (\<lambda>i. m ! i) [0..<length m]"
    by (rule filter_cong) (simp_all add: nth_append)
  then show ?thesis
    by (simp add: nonzero_def)
qed

lemma nth_nonzero:
  "length m = length xs \<Longrightarrow> map (\<lambda>i. xs ! i) (nonzero m) = map fst (filter snd (zip xs m))"
proof (induction xs arbitrary: m rule: rev_induct)
  case Nil
  then show ?case by (simp add: nonzero_def)
next
  case (snoc x xs)
  then obtain b m' where m: "m = m' @ [b]" and len: "length m' = length xs"
    by (cases m rule: rev_cases) auto
  have "list_all (\<lambda>i. i < length xs) (nonzero m')"
    using len by (simp add: nonzero_def list_all_iff)
  then have "map (\<lambda>i. (xs @ [x]) ! i) (nonzero m') = map (\<lambda>i. xs ! i) (nonzero m')"
    by (simp add: list_all_iff nth_append)
  with snoc.IH [OF len] show ?case
    by (simp add: m nonzero_snoc len)
qed

lemma nonzero_bound: "list_all (\<lambda>i. i < length m) (nonzero m)"
  by (simp add: nonzero_def list_all_iff)

lemma nonzero_replicate: "nonzero (replicate n True) = [0..<n]"
  by (simp add: nonzero_def filter_id_conv)

lemma wf_column: "wf_matrix M \<Longrightarrow> c \<in> set (columns M) \<Longrightarrow> length c = n_rows M"
  by (simp add: wf_matrix_def list_all_iff)

lemma ix_getitem_all_rows:
  assumes "wf_matrix M" and "length m = n_cols M"
  shows "ix_getitem M (replicate (n_rows M) True) m =
           Inr \<lparr>n_rows = n_rows M, columns = map fst (filter snd (zip (columns M) m))\<rparr>"
proof -
  have rows: "map (\<lambda>i. c ! i) [0..<n_rows M] = c" if "c \<in> set (columns M)" for c
    using wf_column [OF assms(1) that] map_nth [of c] by simp
  have bound: "list_all (\<lambda>j. j < n_cols M) (nonzero m)"
    using nonzero_bound [of m] assms(2) by simp
  then have "map (\<lambda>j. map (\<lambda>i. columns M ! j ! i) [0..<n_rows M]) (nonzero m)
          = map (\<lambda>j. columns M ! j) (nonzero m)"
    by (simp add: list_all_iff n_cols_def rows)
  also have "\<dots> = map fst (filter snd (zip (columns M) m))"
    using assms(2) by (simp add: nth_nonzero n_cols_def)
  finally have cols: "map (\<lambda>j. map (\<lambda>i. columns M ! j ! i) [0..<n_rows M]) (nonzero m)
          = map fst (filter snd (zip (columns M) m))" .
  have rbound: "list_all (\<lambda>i. i < n_rows M) [0..<n_rows M]"
    by (simp add: list_all_iff)
  show ?thesis
    unfolding ix_getitem_def nonzero_replicate Let_def
    using bound rbound cols by simp
qed

lemma mask_getitem_aligned:
  "length m = length xs \<Longrightarrow> mask_getitem xs m = Inr (map fst (filter snd (zip xs m)))"
  by (cases "m = []") (simp_all add: mask_getitem_def nth_nonzero)

lemma filter_zip_left:
  "length xs = length ys \<Longrightarrow> length ys = length m \<Longrightarrow>
     zip (map fst (filter snd (zip xs m))) (map fst (filter snd (zip ys m)))
       = map fst (filter snd (zip (zip xs ys) m))"
  by (induction xs ys m rule: list_induct3) auto

lemma subseq_mask: "subseq (map fst (filter snd (zip xs m))) xs"
proof (induction xs arbitrary: m)
  case Nil
  then show ?case by simp
next
  case (Cons x xs)
  then show ?case by (cases m) auto
qed


lemma paths_differ: "stat_path p \<noteq> h5_path p"
  by (simp add: stat_path_def h5_path_def)

lemma py_index_nat: "i < length xs \<Longrightarrow> py_index xs (int i) = Inr (xs ! i)"
  by (simp add: py_index_def)

lemma py_index_nat_out: "\<not> i < length xs \<Longrightarrow> py_index xs (int i) = Inl IndexError"
  by (simp add: py_index_def)

lemma py_slice_pair: "py_slice [a, b] 0 2 = [a, b]"
  by (simp add: py_slice_def)

lemma py_int_of_int: "py_int (of_int g) = g"
  by (simp add: py_int_def)

lemma stat_loop_ok:
  "list_all (\<lambda>i. i < length barcode) is \<Longrightarrow>
   stat_loop [cs, gs] barcode is out =
     (None, out @ concat (map (\<lambda>i. barcode ! i @ tab @ str_int (py_int (cs ! i)) @ tab
                                  @ str_int (py_int (gs ! i)) @ newline) is))"
  by (induction "is" arbitrary: out) (simp_all add: py_index_nat py_slice_pair)

lemma stat_loop_None:
  "fst (stat_loop [cs, gs] barcode is out) = None \<Longrightarrow> list_all (\<lambda>i. i < length barcode) is"
proof (induction "is" arbitrary: out)
  case Nil
  then show ?case by simp
next
  case (Cons i "is")
  show ?case
  proof (cases "i < length barcode")
    case True
    with Cons show ?thesis by (simp add: py_index_nat py_slice_pair)
  next
    case False
    with Cons.prems show ?thesis by (simp add: py_index_nat_out py_slice_pair)
  qed
qed

lemma stat_rows_eq:
  assumes "n_cols M \<le> length barcode"
  shows "header @ concat (map (\<lambda>i. barcode ! i @ tab @ str_int (py_int (sum_axis0 M ! i)) @ tab
                                  @ str_int (py_int (map of_int (gt0_sum_axis0 M) ! i)) @ newline) [0..<n_cols M])
    = spec_stat_report M barcode"
proof -
  have "barcode ! i @ tab @ str_int (py_int (sum_axis0 M ! i)) @ tab
          @ str_int (py_int (map of_int (gt0_sum_axis0 M) ! i)) @ newline
        = spec_stat_row (barcode ! i) (columns M ! i)" if "i < n_cols M" for i
  proof -
    have "gt0_sum_axis0 M ! i = spec_feature_count (columns M ! i)"
      using that by (simp add: gt0_sum_axis0_def n_cols_def indicator_sum spec_feature_count_def)
    moreover have "sum_axis0 M ! i = spec_total_count (columns M ! i)"
      using that by (simp add: sum_axis0_def n_cols_def spec_total_count_def)
    moreover have "i < length (gt0_sum_axis0 M)"
      using that by (simp add: gt0_sum_axis0_def n_cols_def)
    ultimately show ?thesis
      by (simp add: spec_stat_row_def py_int_of_int)
  qed
  then have "map (\<lambda>i. barcode ! i @ tab @ str_int (py_int (sum_axis0 M ! i)) @ tab
                  @ str_int (py_int (map of_int (gt0_sum_axis0 M) ! i)) @ newline) [0..<n_cols M]
             = map (\<lambda>i. spec_stat_row (barcode ! i) (columns M ! i)) [0..<n_cols M]"
    by (intro map_cong) simp_all
  then show ?thesis
    by (simp only: spec_stat_report_def)
qed

lemma write_stat_ok:
  assumes "open_fault env w statfile = None" and "n_cols M \<le> length barcode"
  shows "write_stat env statfile [sum_axis0 M, map of_int (gt0_sum_axis0 M)] barcode w
           = (None, w\<lparr>files := (files w)(statfile \<mapsto> Text (spec_stat_report M barcode))\<rparr>)"
proof -
  have "list_all (\<lambda>i. i < length barcode) [0..<n_cols M]"
    using assms(2) by (simp add: list_all_iff)
  from stat_loop_ok [OF this] stat_rows_eq [OF assms(2)] assms(1) show ?thesis
    by (simp add: write_stat_def sum_axis0_def n_cols_def)
qed

lemma write_stat_None:
  assumes "write_stat env statfile [sum_axis0 M, map of_int (gt0_sum_axis0 M)] barcode w = (None, w1)"
  shows "open_fault env w statfile = None \<and> n_cols M \<le> length barcode"
proof -
  from assms have o: "open_fault env w statfile = None"
    by (auto simp: write_stat_def split: option.splits)
  with assms have "fst (stat_loop [sum_axis0 M, map of_int (gt0_sum_axis0 M)] barcode [0..<n_cols M] header) = None"
    by (auto simp: write_stat_def sum_axis0_def n_cols_def split: prod.splits)
  from stat_loop_None [OF this] have "n_cols M \<le> length barcode"
    by (cases "n_cols M") (simp_all add: list_all_iff)
  with o show ?thesis by simp
qed

lemma write_stat_err:
  assumes "write_stat env statfile cg barcode w = (r, w1)"
  shows "\<forall>p. p \<noteq> statfile \<longrightarrow> files w1 p = files w p"
  using assms by (auto simp: write_stat_def split: option.splits prod.splits)


lemma write_10X_h5_other:
  "q \<noteq> path \<Longrightarrow> files (snd (write_10X_h5 env path c w)) q = files w q"
  by (simp add: write_10X_h5_def split: option.splits)

lemma FilterCell_run:
  assumes "open_fault env w (stat_path p) = None" and "n_cols M \<le> length barcode"
    and "passed_cell_matrix M cc gc = Inr m" and "passed_barcodes M barcode cc gc = Inr bs"
  shows "FilterCell env M feature barcode cc gc p species w =
           write_10X_h5 env (h5_path p)
             \<lparr>h5_matrix = m, h5_features = feature, h5_barcodes = bs,
              h5_genome = species, h5_datatype = ''Gene''\<rparr>
             (w\<lparr>files := (files w)(stat_path p \<mapsto> Text (spec_stat_report M barcode))\<rparr>)"
  using write_stat_ok [OF assms(1,2)] assms(3,4)
  by (simp add: FilterCell_def stat_path_def h5_path_def)

lemma FilterCell_stat_file:
  assumes "open_fault env w (stat_path p) = None" and "n_cols M \<le> length barcode"
  shows "files (snd (FilterCell env M feature barcode cc gc p species w)) (stat_path p)
           = Some (Text (spec_stat_report M barcode))"
  using write_stat_ok [OF assms] paths_differ [of p]
  by (simp add: FilterCell_def stat_path_def h5_path_def write_10X_h5_other
      split: sum.splits)

lemma FilterCell_h5_written:
  assumes "files (snd (FilterCell env M feature barcode cc gc p species w)) (h5_path p)
             \<noteq> files w (h5_path p)"
  shows "open_fault env w (stat_path p) = None \<and> n_cols M \<le> length barcode"
proof -
  obtain r w1 where ws: "write_stat env (stat_path p) [sum_axis0 M, map of_int (gt0_sum_axis0 M)] barcode w = (r, w1)"
    by (cases "write_stat env (stat_path p) [sum_axis0 M, map of_int (gt0_sum_axis0 M)] barcode w")
  from write_stat_err [OF ws] paths_differ [of p]
  have same: "files w1 (h5_path p) = files w (h5_path p)"
    by (metis)
  show ?thesis
  proof (cases r)
    case None
    with ws write_stat_None show ?thesis by blast
  next
    case (Some e)
    with ws same assms show ?thesis
      by (simp add: FilterCell_def stat_path_def)
  qed
qed

section \<open>Strings\<close>

lemma py_slice_trim: "py_slice i 1 (int (length i) - 1) = butlast (tl i)"
proof (cases i)
  case Nil
  then show ?thesis by (simp add: py_slice_def)
next
  case (Cons x xs)
  then show ?thesis
    by (simp add: py_slice_def butlast_conv_take min_def)
qed

lemma py_index_last: "p \<noteq> [] \<Longrightarrow> py_index p (- 1) = Inr (last p)"
  by (cases p rule: rev_cases) (simp_all add: py_index_def nat_add_distrib)

lemma py_index_hd: "p \<noteq> [] \<Longrightarrow> py_index p 0 = Inr (hd p)"
  by (cases p) (simp_all add: py_index_def)

lemma split_fields_nonempty: "split_fields sep cur s \<noteq> []"
  by (induction sep cur s rule: split_fields.induct) auto

lemma after_last_Cons:
  "after_last c (x # xs) = (if c \<in> set xs then after_last c xs else if x = c then xs else x # xs)"
proof (cases "c \<in> set xs")
  case True
  then have "takeWhile (\<lambda>x. x \<noteq> c) (rev xs @ [x]) = takeWhile (\<lambda>x. x \<noteq> c) (rev xs)"
    by (intro takeWhile_append1 [of c]) simp_all
  with True show ?thesis by (simp add: after_last_def)
next
  case False
  then have "takeWhile (\<lambda>x. x \<noteq> c) (rev xs @ [x]) = rev xs @ takeWhile (\<lambda>x. x \<noteq> c) [x]"
    by (intro takeWhile_append2) auto
  with False show ?thesis by (simp add: after_last_def)
qed

lemma last_split_fields:
  "last (split_fields [c] cur s) = (if c \<in> set s then after_last c s else rev cur @ s)"
proof (induction s arbitrary: cur)
  case Nil
  then show ?case by simp
next
  case (Cons x xs)
  show ?case
  proof (cases "x = c")
    case True
    then show ?thesis
      using Cons [of "[]"] by (simp add: split_fields_nonempty after_last_Cons)
  next
    case False
    then show ?thesis
      using Cons [of "x # cur"] by (simp add: after_last_Cons)
  qed
qed

lemma hd_split_fields:
  "sep \<noteq> [] \<Longrightarrow> hd (split_fields sep cur s) = rev cur @ up_to_first sep s"
  by (induction s arbitrary: cur) simp_all

lemma after_last_notin: "c \<notin> set s \<Longrightarrow> after_last c s = s"
proof -
  assume "c \<notin> set s"
  then have "takeWhile (\<lambda>x. x \<noteq> c) (rev s) = rev s"
    by (intro takeWhile_eq_all_conv [THEN iffD2]) auto
  then show ?thesis
    by (simp only: after_last_def rev_rev_ident)
qed

lemma last_split: "last (split_fields [c] [] s) = after_last c s"
  by (simp add: last_split_fields after_last_notin)

lemma feature_name_eq: "feature_name i = Inr (after_last CHR ''_'' i)"
  by (simp add: feature_name_def py_split_def exn_bind_def py_index_last split_fields_nonempty
      last_split)

lemma barcode_name_eq:
  "barcode_name i = Inr (up_to_first ''.genes.results'' (after_last CHR ''/'' i))"
  using hd_split_fields [of "''.genes.results''" "[]" "after_last CHR ''/'' i"]
  by (simp add: barcode_name_def py_split_def exn_bind_def py_index_last py_index_hd
      split_fields_nonempty last_split)

lemma mapM_total: "(\<And>x. f x = Inr (g x)) \<Longrightarrow> mapM f xs = Inr (map g xs)"
  by (induction xs) (simp_all add: exn_bind_def)

lemma map_trim_if_quoted:
  "map (trim_if_quoted c) names =
     (if c = CHR 0x22 \<or> c = CHR 0x27 then map (\<lambda>i. butlast (tl i)) names else names)"
proof (cases "c = CHR 0x22 \<or> c = CHR 0x27")
  case True
  then have "trim_if_quoted c = (\<lambda>i. butlast (tl i))"
    by (intro ext) (simp add: trim_if_quoted_def)
  with True show ?thesis by simp
next
  case False
  then have "trim_if_quoted c = (\<lambda>i. i)"
    by (intro ext) (simp add: trim_if_quoted_def)
  with False show ?thesis by simp
qed

lemma strip_quotes_eq:
  assumes "names \<noteq> []" and "hd names \<noteq> []"
  shows "strip_quotes names = Inr (map (trim_if_quoted (hd (hd names))) names)"
  unfolding map_trim_if_quoted using assms
  by (simp add: strip_quotes_def exn_bind_def py_index_hd py_slice_trim)

lemma after_last_spec:
  "c \<notin> set (after_last c s) \<and> (c \<notin> set s \<longrightarrow> after_last c s = s) \<and>
   (c \<in> set s \<longrightarrow> (\<exists>p. s = p @ c # after_last c s))"
proof (induction s)
  case Nil
  then show ?case by (simp add: after_last_def)
next
  case (Cons x xs)
  then show ?case
    by (auto simp: after_last_Cons intro: exI [of _ "[]"] exI [of _ "x # p" for p])
qed

lemma up_to_first_spec:
  "prefix (up_to_first sep s) s \<and>
   (up_to_first sep s = s \<or> (\<exists>r. s = up_to_first sep s @ sep @ r))"
proof (induction s)
  case Nil
  then show ?case by simp
next
  case (Cons x xs)
  then show ?case
    by (auto simp: prefix_def)
qed

section \<open>Facts about the examples\<close>




lemma length_filter_zip_mask:
  "length xs = length ys \<Longrightarrow> length ys = length m \<Longrightarrow>
     length (filter snd (zip xs m)) = length (filter snd (zip ys m))"
  by (induction xs ys m rule: list_induct3) auto

lemma nonzero_all_False:
  assumes "\<forall>b\<in>set m. \<not> b"
  shows "nonzero m = []"
proof -
  have "\<not> m ! i" if "i < length m" for i
    using assms that nth_mem by blast
  then show ?thesis
    by (simp add: nonzero_def filter_empty_conv)
qed

lemma ix_getitem_no_columns:
  assumes "nonzero m = []"
  shows "ix_getitem M (replicate (n_rows M) True) m = Inr \<lparr>n_rows = n_rows M, columns = []\<rparr>"
  using assms by (simp add: ix_getitem_def nonzero_replicate list_all_iff)

lemma mask_getitem_none:
  assumes "nonzero m = []" and "length m = length xs"
  shows "mask_getitem xs m = Inr []"
  using assms by (simp add: mask_getitem_def)

lemma example_mask: "passed_cell example_matrix 2 1 = [False, False, True]"
  by (simp add: passed_cell_def sum_axis0_def gt0_sum_axis0_def example_matrix_def)

lemma example_wf: "wf_matrix example_matrix"
  by (simp add: wf_matrix_def example_matrix_def)

lemma example_len: "length example_barcodes = n_cols example_matrix"
  by (simp add: example_barcodes_def example_matrix_def n_cols_def)

lemma example_passed_cell_matrix:
  "passed_cell_matrix example_matrix 2 1 = Inr \<lparr>n_rows = 2, columns = [[5, 5 / 2]]\<rparr>"
proof -
  have "length (passed_cell example_matrix 2 1) = n_cols example_matrix"
    by (simp add: passed_cell_map n_cols_def)
  from ix_getitem_all_rows [OF example_wf this] show ?thesis
    by (simp add: passed_cell_matrix_def example_mask) (simp add: example_matrix_def)
qed

lemma example_passed_barcodes:
  "passed_barcodes example_matrix example_barcodes 2 1 = Inr [''AAAT'']"
proof -
  have "length (passed_cell example_matrix 2 1) = length example_barcodes"
    by (simp add: example_mask example_barcodes_def)
  from mask_getitem_aligned [OF this] show ?thesis
    by (simp add: passed_barcodes_def example_mask) (simp add: example_barcodes_def)
qed

lemma example_open: "open_fault example_env w (''out/s'' @ ''_count_gene_stat.txt'') = None"
  "open_fault example_env w (''full/s'' @ ''_count_gene_stat.txt'') = None"
  by (simp_all add: example_env_def)

lemma example_write_fault:
  "write_fault example_env w (''out/s'' @ ''_filtered_gene_count.h5'') c = None"
  "write_fault example_env w (''full/s'' @ ''_filtered_gene_count.h5'') c = Some (OSError ''ENOSPC'')"
  by (simp_all add: example_env_def)

lemma example_run:
  "FilterCell example_env example_matrix [''G1'', ''G2''] example_barcodes 2 1 ''out/s''
       ''GRCh38'' w =
     (Inr (), w\<lparr>files := (files w)
        (''out/s'' @ ''_count_gene_stat.txt'' \<mapsto>
           Text (spec_stat_report example_matrix example_barcodes),
         ''out/s'' @ ''_filtered_gene_count.h5'' \<mapsto>
           Container \<lparr>h5_matrix = \<lparr>n_rows = 2, columns = [[5, 5 / 2]]\<rparr>,
                      h5_features = [''G1'', ''G2''], h5_barcodes = [''AAAT''],
                      h5_genome = ''GRCh38'', h5_datatype = ''Gene''\<rparr>)\<rparr>)"
proof -
  have n: "n_cols example_matrix \<le> length example_barcodes"
    by (simp add: example_len)
  have o: "open_fault example_env w (stat_path ''out/s'') = None"
    using example_open(1) by (simp only: stat_path_def)
  show ?thesis
    unfolding FilterCell_run [OF o n example_passed_cell_matrix example_passed_barcodes]
    using example_write_fault(1)
    by (simp only: write_10X_h5_def h5_path_def stat_path_def) simp
qed

lemma example_load:
  "load_matrix example_env ''h5'' ''matrix.h5'' feature gene_column barcode =
     Inr (Some (example_matrix, [''G1'', ''G2''], example_barcodes))"
  by (simp add: load_matrix_def example_env_def exn_bind_def decode_names_def py_index_hd
      example_barcodes_def)

lemma load_matrix_unsupported:
  "fileformat \<notin> set format_choices \<Longrightarrow>
     load_matrix env fileformat matrix feature gene_column barcode = Inr None"
  by (auto simp: load_matrix_def format_choices_def)

lemma example_makedirs:
  "os_makedirs example_env ''denied'' empty_world = (Some (OSError ''EACCES''), empty_world)"
  "os_makedirs example_env ''MAESTRO'' empty_world = (None, empty_world\<lparr>dirs := {''MAESTRO''}\<rparr>)"
  by (simp_all add: os_makedirs_def example_env_def empty_world_def)

lemma example_denied_run:
  "load_and_filter example_env ''denied'' ''s'' ''h5'' ''matrix.h5'' ''features.tsv'' 2
      ''barcodes.tsv'' 2 1 ''GRCh38'' w = (Inl (OSError ''ENOENT''), w)"
proof -
  have "open_fault example_env w (path_join ''denied'' ''s'' @ ''_count_gene_stat.txt'')
          = Some (OSError ''ENOENT'')"
    by (simp add: example_env_def path_join_def)
  then show ?thesis
    by (simp add: load_and_filter_def example_load FilterCell_def write_stat_def)
qed

lemma example_out_run:
  "load_and_filter example_env ''out'' ''s'' ''h5'' ''matrix.h5'' ''features.tsv'' 2
      ''barcodes.tsv'' 2 1 ''GRCh38'' w =
     (Inr (), w\<lparr>files := (files w)
        (''out/s'' @ ''_count_gene_stat.txt'' \<mapsto>
           Text (spec_stat_report example_matrix example_barcodes),
         ''out/s'' @ ''_filtered_gene_count.h5'' \<mapsto>
           Container \<lparr>h5_matrix = \<lparr>n_rows = 2, columns = [[5, 5 / 2]]\<rparr>,
                      h5_features = [''G1'', ''G2''], h5_barcodes = [''AAAT''],
                      h5_genome = ''GRCh38'', h5_datatype = ''Gene''\<rparr>)\<rparr>)"
proof -
  have "path_join ''out'' ''s'' = ''out/s''"
    by (simp add: path_join_def)
  then show ?thesis
    by (simp only: load_and_filter_def example_load sum.case option.case prod.case Let_def
        example_run)
qed

section \<open>The pass mask\<close>



section \<open>The statistics report\<close>



section \<open>The filtered matrix and its barcodes\<close>

text \<open>
  C3. For a well-formed matrix and any cutoffs the selection succeeds, the filtered matrix
  has the row count of the input, and its columns are those input columns, whole and in
  their order, whose mask entry is true: only columns are removed.
\<close>

theorem filtered_rows:
  assumes "wf_matrix M"
  shows "\<exists>M'. passed_cell_matrix M cc gc = Inr M' \<and> n_rows M' = n_rows M \<and> wf_matrix M' \<and>
           columns M' = map fst (filter snd (zip (columns M) (passed_cell M cc gc))) \<and>
           subseq (columns M') (columns M)"
proof -
  define kept where "kept = map fst (filter snd (zip (columns M) (passed_cell M cc gc)))"
  have len: "length (passed_cell M cc gc) = n_cols M"
    by (simp add: passed_cell_map n_cols_def)
  have res: "passed_cell_matrix M cc gc = Inr \<lparr>n_rows = n_rows M, columns = kept\<rparr>"
    using ix_getitem_all_rows [OF assms len] by (simp add: passed_cell_matrix_def kept_def)
  have "set kept \<subseteq> set (columns M)"
    by (auto simp: kept_def dest: set_zip_leftD)
  then have wf: "wf_matrix \<lparr>n_rows = n_rows M, columns = kept\<rparr>"
    using assms by (auto simp: wf_matrix_def list_all_iff)
  have "subseq kept (columns M)"
    by (simp add: kept_def subseq_mask)
  with res wf show ?thesis
    by (simp add: kept_def)
qed

theorem filtered_rows_witness:
  "wf_matrix example_matrix \<and>
   (\<exists>M'. passed_cell_matrix example_matrix 2 1 = Inr M' \<and> n_rows M' = 2 \<and>
          columns M' = [[5, 5 / 2]])"
proof -
  from filtered_rows [OF example_wf, of 2 1] obtain M' where
    "passed_cell_matrix example_matrix 2 1 = Inr M'" and "n_rows M' = n_rows example_matrix"
    and "columns M' = map fst (filter snd (zip (columns example_matrix)
                                              (passed_cell example_matrix 2 1)))"
    by blast
  then have "passed_cell_matrix example_matrix 2 1 = Inr M' \<and> n_rows M' = 2 \<and>
             columns M' = [[5, 5 / 2]]"
    by (simp add: example_mask) (simp add: example_matrix_def)
  with example_wf show ?thesis
    by blast
qed

text \<open>
  C4. For a well-formed matrix with one barcode per column, the filtered barcodes are the
  barcodes whose mask entry is true, in their order, as many as the filtered matrix has
  columns, and pairing the filtered columns with the filtered barcodes gives exactly the
  input pairs of column and barcode whose mask entry is true: the i-th filtered barcode
  is the barcode of the i-th filtered column. These two are what \<open>FilterCell\<close> hands to
  the container writer.
\<close>

theorem barcodes_aligned:
  assumes "wf_matrix M" and "length barcode = n_cols M"
  shows "\<exists>m bs. passed_cell_matrix M cc gc = Inr m \<and>
           passed_barcodes M barcode cc gc = Inr bs \<and>
           bs = map fst (filter snd (zip barcode (passed_cell M cc gc))) \<and>
           subseq bs barcode \<and>
           length bs = n_cols m \<and>
           zip (columns m) bs =
             map fst (filter snd (zip (zip (columns M) barcode) (passed_cell M cc gc))) \<and>
           (open_fault env w (outprefix @ ''_count_gene_stat.txt'') = None \<longrightarrow>
              FilterCell env M feature barcode cc gc outprefix species w =
                write_10X_h5 env (outprefix @ ''_filtered_gene_count.h5'')
                  \<lparr>h5_matrix = m, h5_features = feature, h5_barcodes = bs,
                   h5_genome = species, h5_datatype = ''Gene''\<rparr>
                  (w\<lparr>files := (files w)(outprefix @ ''_count_gene_stat.txt'' \<mapsto>
                                 Text (spec_stat_report M barcode))\<rparr>))"
proof -
  define mask where "mask = passed_cell M cc gc"
  define m where "m = \<lparr>n_rows = n_rows M, columns = map fst (filter snd (zip (columns M) mask))\<rparr>"
  define bs where "bs = map fst (filter snd (zip barcode mask))"
  have len: "length mask = n_cols M"
    by (simp add: mask_def passed_cell_map n_cols_def)
  have pm: "passed_cell_matrix M cc gc = Inr m"
    using ix_getitem_all_rows [OF assms(1) len] by (simp add: passed_cell_matrix_def m_def mask_def)
  have pb: "passed_barcodes M barcode cc gc = Inr bs"
    using mask_getitem_aligned [of mask barcode] len assms(2)
    by (simp add: passed_barcodes_def bs_def mask_def)
  have sub: "subseq bs barcode"
    by (simp add: bs_def subseq_mask)
  have al: "zip (columns m) bs = map fst (filter snd (zip (zip (columns M) barcode) mask))"
    using filter_zip_left [of "columns M" barcode mask] len assms(2)
    by (simp add: m_def bs_def n_cols_def)
  have "length (columns m) = length bs"
    using length_filter_zip_mask [of "columns M" barcode mask] len assms(2)
    by (simp add: m_def bs_def n_cols_def)
  then have lb: "length bs = n_cols m"
    by (simp add: n_cols_def)
  have run: "FilterCell env M feature barcode cc gc outprefix species w =
                write_10X_h5 env (outprefix @ ''_filtered_gene_count.h5'')
                  \<lparr>h5_matrix = m, h5_features = feature, h5_barcodes = bs,
                   h5_genome = species, h5_datatype = ''Gene''\<rparr>
                  (w\<lparr>files := (files w)(outprefix @ ''_count_gene_stat.txt'' \<mapsto>
                                 Text (spec_stat_report M barcode))\<rparr>)"
    if "open_fault env w (outprefix @ ''_count_gene_stat.txt'') = None"
    using FilterCell_run [of env w outprefix M barcode cc gc m bs feature species] that pm pb assms(2)
    by (simp add: stat_path_def h5_path_def)
  show ?thesis
    unfolding mask_def [symmetric]
    by (intro exI [of _ m] exI [of _ bs] conjI impI pm pb sub lb al run) (simp_all add: bs_def)
qed

theorem barcodes_aligned_witness:
  "wf_matrix example_matrix \<and> length example_barcodes = n_cols example_matrix \<and>
   (\<exists>m bs. passed_cell_matrix example_matrix 2 1 = Inr m \<and>
            passed_barcodes example_matrix example_barcodes 2 1 = Inr bs \<and>
            zip (columns m) bs = [([5, 5 / 2], ''AAAT'')])"
proof -
  from barcodes_aligned [OF example_wf example_len, of 2 1] obtain m bs where
    "passed_cell_matrix example_matrix 2 1 = Inr m"
    and "passed_barcodes example_matrix example_barcodes 2 1 = Inr bs"
    and "zip (columns m) bs = map fst (filter snd (zip (zip (columns example_matrix)
                                 example_barcodes) (passed_cell example_matrix 2 1)))"
    by blast
  then have "passed_cell_matrix example_matrix 2 1 = Inr m \<and>
            passed_barcodes example_matrix example_barcodes 2 1 = Inr bs \<and>
            zip (columns m) bs = [([5, 5 / 2], ''AAAT'')]"
    by (simp add: example_mask) (simp add: example_matrix_def example_barcodes_def)
  with example_wf example_len show ?thesis
    by blast
qed

section \<open>The order of the two writes\<close>

text \<open>
  C8. The report is complete before the container is written. First, for every input:
  if a run changes what is stored at the container path, then the report file holds the
  complete report, so there is never a container written by a run without its report.
  Second: when the report has been written and the selection has succeeded, a container
  write that fails ends the run with the writer's exception, in a world that holds the
  complete report and in which nothing but the report file has changed.
\<close>

theorem report_before_container:
  "(files (snd (FilterCell env M feature barcode cc gc outprefix species w))
        (outprefix @ ''_filtered_gene_count.h5'') \<noteq> files w (outprefix @ ''_filtered_gene_count.h5'')
      \<longrightarrow> files (snd (FilterCell env M feature barcode cc gc outprefix species w))
            (outprefix @ ''_count_gene_stat.txt'') = Some (Text (spec_stat_report M barcode)))
   \<and>
   (open_fault env w (outprefix @ ''_count_gene_stat.txt'') = None \<and> n_cols M \<le> length barcode \<and>
    passed_cell_matrix M cc gc = Inr m \<and> passed_barcodes M barcode cc gc = Inr bs \<and>
    write_fault env
      (w\<lparr>files := (files w)(outprefix @ ''_count_gene_stat.txt'' \<mapsto>
                      Text (spec_stat_report M barcode))\<rparr>)
      (outprefix @ ''_filtered_gene_count.h5'')
      \<lparr>h5_matrix = m, h5_features = feature, h5_barcodes = bs,
       h5_genome = species, h5_datatype = ''Gene''\<rparr> = Some e
      \<longrightarrow> FilterCell env M feature barcode cc gc outprefix species w =
            (Inl e, w\<lparr>files := (files w)(outprefix @ ''_count_gene_stat.txt'' \<mapsto>
                                  Text (spec_stat_report M barcode))\<rparr>))"
proof (intro conjI impI)
  assume "files (snd (FilterCell env M feature barcode cc gc outprefix species w))
        (outprefix @ ''_filtered_gene_count.h5'') \<noteq> files w (outprefix @ ''_filtered_gene_count.h5'')"
  then have "open_fault env w (stat_path outprefix) = None \<and> n_cols M \<le> length barcode"
    using FilterCell_h5_written [of env M feature barcode cc gc outprefix species w]
    by (simp add: h5_path_def)
  then show "files (snd (FilterCell env M feature barcode cc gc outprefix species w))
            (outprefix @ ''_count_gene_stat.txt'') = Some (Text (spec_stat_report M barcode))"
    using FilterCell_stat_file [of env w outprefix M barcode feature cc gc species]
    by (simp add: stat_path_def)
next
  assume a: "open_fault env w (outprefix @ ''_count_gene_stat.txt'') = None \<and> n_cols M \<le> length barcode \<and>
    passed_cell_matrix M cc gc = Inr m \<and> passed_barcodes M barcode cc gc = Inr bs \<and>
    write_fault env
      (w\<lparr>files := (files w)(outprefix @ ''_count_gene_stat.txt'' \<mapsto>
                      Text (spec_stat_report M barcode))\<rparr>)
      (outprefix @ ''_filtered_gene_count.h5'')
      \<lparr>h5_matrix = m, h5_features = feature, h5_barcodes = bs,
       h5_genome = species, h5_datatype = ''Gene''\<rparr> = Some e"
  then show "FilterCell env M feature barcode cc gc outprefix species w =
            (Inl e, w\<lparr>files := (files w)(outprefix @ ''_count_gene_stat.txt'' \<mapsto>
                                  Text (spec_stat_report M barcode))\<rparr>)"
    using FilterCell_run [of env w outprefix M barcode cc gc m bs feature species]
    by (simp add: stat_path_def h5_path_def write_10X_h5_def)
qed

theorem report_before_container_witness:
  "files (snd (FilterCell example_env example_matrix [''G1'', ''G2''] example_barcodes 2 1
                 ''out/s'' ''GRCh38'' empty_world)) (''out/s'' @ ''_filtered_gene_count.h5'')
     \<noteq> files empty_world (''out/s'' @ ''_filtered_gene_count.h5'') \<and>
   files (snd (FilterCell example_env example_matrix [''G1'', ''G2''] example_barcodes 2 1
                 ''out/s'' ''GRCh38'' empty_world)) (''out/s'' @ ''_count_gene_stat.txt'')
     = Some (Text (spec_stat_report example_matrix example_barcodes)) \<and>
   open_fault example_env empty_world (''full/s'' @ ''_count_gene_stat.txt'') = None \<and>
   n_cols example_matrix \<le> length example_barcodes \<and>
   passed_cell_matrix example_matrix 2 1 = Inr \<lparr>n_rows = 2, columns = [[5, 5 / 2]]\<rparr> \<and>
   passed_barcodes example_matrix example_barcodes 2 1 = Inr [''AAAT''] \<and>
   write_fault example_env
      (empty_world\<lparr>files := (files empty_world)(''full/s'' @ ''_count_gene_stat.txt'' \<mapsto>
                      Text (spec_stat_report example_matrix example_barcodes))\<rparr>)
      (''full/s'' @ ''_filtered_gene_count.h5'')
      \<lparr>h5_matrix = \<lparr>n_rows = 2, columns = [[5, 5 / 2]]\<rparr>, h5_features = [''G1'', ''G2''],
       h5_barcodes = [''AAAT''], h5_genome = ''GRCh38'', h5_datatype = ''Gene''\<rparr>
     = Some (OSError ''ENOSPC'') \<and>
   FilterCell example_env example_matrix [''G1'', ''G2''] example_barcodes 2 1 ''full/s''
       ''GRCh38'' empty_world =
     (Inl (OSError ''ENOSPC''),
      empty_world\<lparr>files := (files empty_world)(''full/s'' @ ''_count_gene_stat.txt'' \<mapsto>
                      Text (spec_stat_report example_matrix example_barcodes))\<rparr>)"
proof -
  have written: "files (snd (FilterCell example_env example_matrix [''G1'', ''G2''] example_barcodes 2 1
                 ''out/s'' ''GRCh38'' empty_world)) (''out/s'' @ ''_filtered_gene_count.h5'')
     \<noteq> files empty_world (''out/s'' @ ''_filtered_gene_count.h5'')"
    by (simp add: example_run) (simp add: empty_world_def)
  have n: "n_cols example_matrix \<le> length example_barcodes"
    by (simp add: example_len)
  note first = report_before_container [of example_env example_matrix "[''G1'', ''G2'']"
      example_barcodes 2 1 "''out/s''" "''GRCh38''" empty_world, THEN conjunct1, rule_format,
      OF written]
  note second = report_before_container [of example_env example_matrix "[''G1'', ''G2'']"
      example_barcodes 2 1 "''full/s''" "''GRCh38''" empty_world
      "\<lparr>n_rows = 2, columns = [[5, 5 / 2]]\<rparr>" "[''AAAT'']" "OSError ''ENOSPC''",
      THEN conjunct2, rule_format,
      OF conjI [OF example_open(2) conjI [OF n conjI [OF example_passed_cell_matrix
        conjI [OF example_passed_barcodes example_write_fault(2)]]]]]
  from written first n second show ?thesis
    by (simp only: example_open example_passed_cell_matrix example_passed_barcodes
        example_write_fault simp_thms)
qed

section \<open>No cell passes\<close>

text \<open>
  C9. When there is one barcode per column, the report file can be opened and no cell
  passes the cutoffs, nothing raises before the container write: the filtered matrix has
  the rows of the input and no column, the filtered barcode list is empty, the features
  are handed over unchanged, and \<open>FilterCell\<close> is the write of that container; when the
  writer does not fail, the run succeeds and the container is stored.
\<close>

theorem all_cells_fail:
  assumes "length barcode = n_cols M"
    and "open_fault env w (outprefix @ ''_count_gene_stat.txt'') = None"
    and "\<forall>c\<in>set (columns M). \<not> (of_int cc < spec_total_count c \<and> gc < spec_feature_count c)"
  shows "passed_cell_matrix M cc gc = Inr \<lparr>n_rows = n_rows M, columns = []\<rparr> \<and>
         passed_barcodes M barcode cc gc = Inr [] \<and>
         FilterCell env M feature barcode cc gc outprefix species w =
           write_10X_h5 env (outprefix @ ''_filtered_gene_count.h5'')
             \<lparr>h5_matrix = \<lparr>n_rows = n_rows M, columns = []\<rparr>, h5_features = feature,
              h5_barcodes = [], h5_genome = species, h5_datatype = ''Gene''\<rparr>
             (w\<lparr>files := (files w)(outprefix @ ''_count_gene_stat.txt'' \<mapsto>
                            Text (spec_stat_report M barcode))\<rparr>) \<and>
         (write_fault env
            (w\<lparr>files := (files w)(outprefix @ ''_count_gene_stat.txt'' \<mapsto>
                            Text (spec_stat_report M barcode))\<rparr>)
            (outprefix @ ''_filtered_gene_count.h5'')
            \<lparr>h5_matrix = \<lparr>n_rows = n_rows M, columns = []\<rparr>, h5_features = feature,
             h5_barcodes = [], h5_genome = species, h5_datatype = ''Gene''\<rparr> = None
          \<longrightarrow> fst (FilterCell env M feature barcode cc gc outprefix species w) = Inr () \<and>
              files (snd (FilterCell env M feature barcode cc gc outprefix species w))
                (outprefix @ ''_filtered_gene_count.h5'') =
              Some (Container
                \<lparr>h5_matrix = \<lparr>n_rows = n_rows M, columns = []\<rparr>, h5_features = feature,
                 h5_barcodes = [], h5_genome = species, h5_datatype = ''Gene''\<rparr>))"
proof -
  have "\<forall>b\<in>set (passed_cell M cc gc). \<not> b"
    using assms(3) by (auto simp: passed_cell_map spec_passes_def)
  then have nz: "nonzero (passed_cell M cc gc) = []"
    by (rule nonzero_all_False)
  have len: "length (passed_cell M cc gc) = length barcode"
    using assms(1) by (simp add: passed_cell_map n_cols_def)
  have pm: "passed_cell_matrix M cc gc = Inr \<lparr>n_rows = n_rows M, columns = []\<rparr>"
    using ix_getitem_no_columns [OF nz] by (simp add: passed_cell_matrix_def)
  have pb: "passed_barcodes M barcode cc gc = Inr []"
    using mask_getitem_none [OF nz len] by (simp add: passed_barcodes_def)
  have run: "FilterCell env M feature barcode cc gc outprefix species w =
           write_10X_h5 env (outprefix @ ''_filtered_gene_count.h5'')
             \<lparr>h5_matrix = \<lparr>n_rows = n_rows M, columns = []\<rparr>, h5_features = feature,
              h5_barcodes = [], h5_genome = species, h5_datatype = ''Gene''\<rparr>
             (w\<lparr>files := (files w)(outprefix @ ''_count_gene_stat.txt'' \<mapsto>
                            Text (spec_stat_report M barcode))\<rparr>)"
    using FilterCell_run [of env w outprefix M barcode cc gc _ _ feature species, OF _ _ pm pb]
      assms(1,2)
    by (simp add: stat_path_def h5_path_def)
  show ?thesis
    by (intro conjI impI pm pb run) (simp_all add: run write_10X_h5_def)
qed

theorem all_cells_fail_witness:
  "length example_barcodes = n_cols example_matrix \<and>
   open_fault example_env empty_world (''out/s'' @ ''_count_gene_stat.txt'') = None \<and>
   list_all (\<lambda>c. \<not> (of_int 100 < spec_total_count c \<and> 0 < spec_feature_count c))
     (columns example_matrix) \<and>
   fst (FilterCell example_env example_matrix [''G1'', ''G2''] example_barcodes 100 0 ''out/s''
          ''GRCh38'' empty_world) = Inr () \<and>
   files (snd (FilterCell example_env example_matrix [''G1'', ''G2''] example_barcodes 100 0
                 ''out/s'' ''GRCh38'' empty_world)) (''out/s'' @ ''_filtered_gene_count.h5'') =
     Some (Container \<lparr>h5_matrix = \<lparr>n_rows = 2, columns = []\<rparr>, h5_features = [''G1'', ''G2''],
                      h5_barcodes = [], h5_genome = ''GRCh38'', h5_datatype = ''Gene''\<rparr>)"
proof -
  have fail: "\<forall>c\<in>set (columns example_matrix).
       \<not> (of_int 100 < spec_total_count c \<and> 0 < spec_feature_count c)"
    by (simp add: example_matrix_def spec_total_count_def)
  note run = all_cells_fail [OF example_len example_open(1) fail, of "[''G1'', ''G2'']" "''GRCh38''",
      THEN conjunct2, THEN conjunct2, THEN conjunct2, rule_format, OF example_write_fault(1)]
  from run fail example_len example_open(1) show ?thesis
    by (simp add: list_all_iff example_matrix_def)
qed

section \<open>The names of a plain-text table\<close>

text \<open>
  C7, as the specification states it, fails: the quotes are stripped only when the first
  name of the list starts with one, and a barcode is cut at the first \<open>.genes.results\<close>
  wherever it stands. The second feature keeps its closing quote, and the second barcode
  loses \<open>.genes.results.bak\<close>, which is not a trailing \<open>.genes.results\<close>.
\<close>

theorem plain_names_counterexample:
  "plain_names [''ENSG1_TP53'', CHR 0x27 # ''ENSG2_MYC'' @ [CHR 0x27]]
       [''/d/s1.genes.results'', ''/d/s2.genes.results.bak'']
     \<noteq> Inr (map spec_feature_name [''ENSG1_TP53'', CHR 0x27 # ''ENSG2_MYC'' @ [CHR 0x27]],
            map spec_barcode_name [''/d/s1.genes.results'', ''/d/s2.genes.results.bak'']) \<and>
   plain_names [''ENSG1_TP53'', CHR 0x27 # ''ENSG2_MYC'' @ [CHR 0x27]]
       [''/d/s1.genes.results'', ''/d/s2.genes.results.bak'']
     = Inr ([''TP53'', ''MYC'' @ [CHR 0x27]], [''s1'', ''s2'']) \<and>
   map spec_feature_name [''ENSG1_TP53'', CHR 0x27 # ''ENSG2_MYC'' @ [CHR 0x27]]
     = [''TP53'', ''MYC''] \<and>
   map spec_barcode_name [''/d/s1.genes.results'', ''/d/s2.genes.results.bak'']
     = [''s1'', ''s2.genes.results.bak'']"
proof -
  have "plain_names [''ENSG1_TP53'', CHR 0x27 # ''ENSG2_MYC'' @ [CHR 0x27]]
       [''/d/s1.genes.results'', ''/d/s2.genes.results.bak'']
     = Inr ([''TP53'', ''MYC'' @ [CHR 0x27]], [''s1'', ''s2''])"
    by code_simp
  moreover have "map spec_feature_name [''ENSG1_TP53'', CHR 0x27 # ''ENSG2_MYC'' @ [CHR 0x27]]
     = [''TP53'', ''MYC'']"
    by (simp add: spec_feature_name_def spec_unquote_def after_last_def)
  moreover have "map spec_barcode_name [''/d/s1.genes.results'', ''/d/s2.genes.results.bak'']
     = [''s1'', ''s2.genes.results.bak'']"
    by (simp add: spec_barcode_name_def spec_unquote_def after_last_def suffix_def)
  ultimately show ?thesis
    by simp
qed

text \<open>
  C7, amended. When both lists are non-empty and their first names are non-empty, each
  stored feature name is what follows the last underscore of the name, and each stored
  barcode is what follows the last \<open>/\<close> of the name, cut before the first
  \<open>.genes.results\<close>; "the name" is the raw name without its first and last character
  when the first name of its list starts with a quote character, and the raw name
  otherwise. In particular \<open>ENSG00000141510_TP53\<close> is stored as \<open>TP53\<close> and
  \<open>/data/out/sample1.genes.results\<close> as \<open>sample1\<close>.
\<close>

theorem plain_names_stored:
  assumes "features \<noteq> []" and "hd features \<noteq> []" and "barcodes \<noteq> []" and "hd barcodes \<noteq> []"
  shows "plain_names features barcodes =
           Inr (map (\<lambda>i. after_last CHR ''_'' (trim_if_quoted (hd (hd features)) i)) features,
                map (\<lambda>i. up_to_first ''.genes.results''
                            (after_last CHR ''/'' (trim_if_quoted (hd (hd barcodes)) i))) barcodes) \<and>
         plain_names [''ENSG00000141510_TP53''] [''/data/out/sample1.genes.results''] =
           Inr ([''TP53''], [''sample1''])"
proof -
  have f: "mapM feature_name xs = Inr (map (after_last CHR ''_'') xs)" for xs
    by (rule mapM_total) (rule feature_name_eq)
  have b: "mapM barcode_name xs =
             Inr (map (\<lambda>i. up_to_first ''.genes.results'' (after_last CHR ''/'' i)) xs)" for xs
    by (rule mapM_total) (rule barcode_name_eq)
  have general: "plain_names fs bs =
           Inr (map (\<lambda>i. after_last CHR ''_'' (trim_if_quoted (hd (hd fs)) i)) fs,
                map (\<lambda>i. up_to_first ''.genes.results''
                            (after_last CHR ''/'' (trim_if_quoted (hd (hd bs)) i))) bs)"
    if "fs \<noteq> []" and "hd fs \<noteq> []" and "bs \<noteq> []" and "hd bs \<noteq> []" for fs bs
    by (simp add: plain_names_def strip_quotes_eq [OF that(1,2)] strip_quotes_eq [OF that(3,4)]
        exn_bind_def f b comp_def)
  have "plain_names [''ENSG00000141510_TP53''] [''/data/out/sample1.genes.results''] =
           Inr ([''TP53''], [''sample1''])"
    by (subst general) (simp_all add: trim_if_quoted_def after_last_def)
  with general [OF assms] show ?thesis
    by simp
qed

theorem plain_names_stored_witness:
  "[CHR 0x22 # ''A_TP53'' @ [CHR 0x22], ''B_MYC''] \<noteq> [] \<and>
   hd [CHR 0x22 # ''A_TP53'' @ [CHR 0x22], ''B_MYC''] \<noteq> [] \<and>
   [''/d/s1.genes.results.bak''] \<noteq> [] \<and> hd [''/d/s1.genes.results.bak''] \<noteq> [] \<and>
   plain_names [CHR 0x22 # ''A_TP53'' @ [CHR 0x22], ''B_MYC''] [''/d/s1.genes.results.bak''] =
     Inr ([''TP53'', ''MY''], [''s1''])"
proof -
  have h: "[CHR 0x22 # ''A_TP53'' @ [CHR 0x22], ''B_MYC''] \<noteq> []"
    "hd [CHR 0x22 # ''A_TP53'' @ [CHR 0x22], ''B_MYC''] \<noteq> []"
    "[''/d/s1.genes.results.bak''] \<noteq> []" "hd [''/d/s1.genes.results.bak''] \<noteq> []"
    by simp_all
  from plain_names_stored [OF h, THEN conjunct1] show ?thesis
    by (simp add: trim_if_quoted_def after_last_def)
qed

text \<open>
  C10. For a non-empty list with a non-empty first name, the first character of the first
  name decides alone: when it is a double or a single quote, every name of the list loses
  its first and its last character, quoted or not; otherwise the list is left as it is.
  \<open>plain_names\<close> applies this to the features and to the barcodes, each list by itself.
\<close>

theorem quotes_decided_by_first_name:
  assumes "names \<noteq> []" and "hd names \<noteq> []"
  shows "strip_quotes names =
           Inr (if hd (hd names) = CHR 0x22 \<or> hd (hd names) = CHR 0x27
                then map (\<lambda>i. butlast (tl i)) names else names)"
  using strip_quotes_eq [OF assms] by (simp only: map_trim_if_quoted)

theorem quotes_decided_by_first_name_witness:
  "[CHR 0x22 # ''a_b'' @ [CHR 0x22], ''c_de''] \<noteq> [] \<and>
   hd [CHR 0x22 # ''a_b'' @ [CHR 0x22], ''c_de''] \<noteq> [] \<and>
   strip_quotes [CHR 0x22 # ''a_b'' @ [CHR 0x22], ''c_de''] = Inr [''a_b'', ''_d''] \<and>
   [''a_b'', CHR 0x22 # ''c_de'' @ [CHR 0x22]] \<noteq> [] \<and>
   hd [''a_b'', CHR 0x22 # ''c_de'' @ [CHR 0x22]] \<noteq> [] \<and>
   strip_quotes [''a_b'', CHR 0x22 # ''c_de'' @ [CHR 0x22]]
     = Inr [''a_b'', CHR 0x22 # ''c_de'' @ [CHR 0x22]]"
proof -
  have h1: "[CHR 0x22 # ''a_b'' @ [CHR 0x22], ''c_de''] \<noteq> []"
    "hd [CHR 0x22 # ''a_b'' @ [CHR 0x22], ''c_de''] \<noteq> []"
    by simp_all
  have h2: "[''a_b'', CHR 0x22 # ''c_de'' @ [CHR 0x22]] \<noteq> []"
    "hd [''a_b'', CHR 0x22 # ''c_de'' @ [CHR 0x22]] \<noteq> []"
    by simp_all
  from quotes_decided_by_first_name [OF h1] quotes_decided_by_first_name [OF h2]
  show ?thesis
    by simp
qed

section \<open>The format tag\<close>

text \<open>
  C5. A format tag outside \<open>h5\<close>, \<open>mtx\<close>, \<open>plain\<close> is to be refused when the command line
  is parsed, before any work. The parser does so for a tag that is written on the command
  line, but when \<open>--format\<close> is left out it passes the default \<open>""\<close> on; \<open>scrna_qc\<close> then
  creates the output directory, takes none of its three branches, and ends with
  \<open>UnboundLocalError\<close> at line 123.
\<close>

theorem missing_format_unbound:
  "parse_format None = Inr '''' \<and>
   '''' \<notin> set format_choices \<and>
   scrna_qc example_env ''MAESTRO'' ''10x-genomics'' '''' ''matrix.h5'' ''features.tsv'' 2
       ''barcodes.tsv'' 1000 500 ''GRCh38'' empty_world =
     (Inl (UnboundLocalError ''rawmatrix''), empty_world\<lparr>dirs := {''MAESTRO''}\<rparr>)"
proof -
  have "'''' \<notin> set format_choices"
    by (simp add: format_choices_def)
  then show ?thesis
    by (simp add: parse_format_def scrna_qc_def example_makedirs load_and_filter_def
        load_matrix_unsupported)
qed

section \<open>Creating the output directory\<close>

text \<open>
  C6, as the specification states it, fails: \<open>os.makedirs\<close> is refused with \<open>EACCES\<close>, the
  run goes on, loads the matrix, and ends with the \<open>ENOENT\<close> of \<open>open\<close> in \<open>FilterCell\<close>.
\<close>

theorem makedirs_denied_counterexample:
  "os_makedirs example_env ''denied'' empty_world = (Some (OSError ''EACCES''), empty_world) \<and>
   scrna_qc example_env ''denied'' ''s'' ''h5'' ''matrix.h5'' ''features.tsv'' 2
       ''barcodes.tsv'' 2 1 ''GRCh38'' empty_world = (Inl (OSError ''ENOENT''), empty_world) \<and>
   fst (scrna_qc example_env ''denied'' ''s'' ''h5'' ''matrix.h5'' ''features.tsv'' 2
          ''barcodes.tsv'' 2 1 ''GRCh38'' empty_world) \<noteq> Inl (OSError ''EACCES'')"
  by (simp add: scrna_qc_def example_makedirs example_denied_run)

text \<open>
  C6, amended. Creating the output directory never ends the run: when the directory
  exists already, and when \<open>os.makedirs\<close> raises any other \<open>OSError\<close>, the exception is
  dropped and the run continues with loading and filtering, in the world as
  \<open>os.makedirs\<close> left it; a failure can only come from those later steps.
\<close>

theorem makedirs_error_dropped:
  "(directory \<in> dirs w \<longrightarrow>
      scrna_qc env directory outprefix fileformat matrix feature gene_column barcode
          count_cutoff gene_cutoff species w =
        load_and_filter env directory outprefix fileformat matrix feature gene_column barcode
          count_cutoff gene_cutoff species w) \<and>
   (os_makedirs env directory w = (Some e, w1) \<and> is_OSError e \<longrightarrow>
      scrna_qc env directory outprefix fileformat matrix feature gene_column barcode
          count_cutoff gene_cutoff species w =
        load_and_filter env directory outprefix fileformat matrix feature gene_column barcode
          count_cutoff gene_cutoff species w1)"
proof (intro conjI impI)
  assume "directory \<in> dirs w"
  then have "os_makedirs env directory w = (Some (OSError ''EEXIST''), w)"
    by (simp add: os_makedirs_def)
  then show "scrna_qc env directory outprefix fileformat matrix feature gene_column barcode
          count_cutoff gene_cutoff species w =
        load_and_filter env directory outprefix fileformat matrix feature gene_column barcode
          count_cutoff gene_cutoff species w"
    by (simp add: scrna_qc_def)
next
  assume "os_makedirs env directory w = (Some e, w1) \<and> is_OSError e"
  then show "scrna_qc env directory outprefix fileformat matrix feature gene_column barcode
          count_cutoff gene_cutoff species w =
        load_and_filter env directory outprefix fileformat matrix feature gene_column barcode
          count_cutoff gene_cutoff species w1"
    by (simp add: scrna_qc_def)
qed

theorem makedirs_error_dropped_witness:
  "''out'' \<in> dirs (empty_world\<lparr>dirs := {''out''}\<rparr>) \<and>
   fst (scrna_qc example_env ''out'' ''s'' ''h5'' ''matrix.h5'' ''features.tsv'' 2
          ''barcodes.tsv'' 2 1 ''GRCh38'' (empty_world\<lparr>dirs := {''out''}\<rparr>)) = Inr () \<and>
   os_makedirs example_env ''denied'' empty_world = (Some (OSError ''EACCES''), empty_world) \<and>
   is_OSError (OSError ''EACCES'') \<and>
   scrna_qc example_env ''denied'' ''s'' ''h5'' ''matrix.h5'' ''features.tsv'' 2
       ''barcodes.tsv'' 2 1 ''GRCh38'' empty_world = (Inl (OSError ''ENOENT''), empty_world)"
proof -
  have d: "''out'' \<in> dirs (empty_world\<lparr>dirs := {''out''}\<rparr>)"
    by simp
  note first = makedirs_error_dropped [where env = example_env and directory = "''out''"
      and w = "empty_world\<lparr>dirs := {''out''}\<rparr>" and outprefix = "''s''" and fileformat = "''h5''"
      and matrix = "''matrix.h5''" and feature = "''features.tsv''" and gene_column = 2
      and barcode = "''barcodes.tsv''" and count_cutoff = 2 and gene_cutoff = 1
      and species = "''GRCh38''", THEN conjunct1, rule_format, OF d]
  note second = makedirs_error_dropped [where env = example_env and directory = "''denied''"
      and w = empty_world and e = "OSError ''EACCES''" and ?w1.0 = empty_world
      and outprefix = "''s''" and fileformat = "''h5''"
      and matrix = "''matrix.h5''" and feature = "''features.tsv''" and gene_column = 2
      and barcode = "''barcodes.tsv''" and count_cutoff = 2 and gene_cutoff = 1
      and species = "''GRCh38''", THEN conjunct2, rule_format]
  from first second d example_makedirs(1) show ?thesis
    by (simp add: example_out_run example_denied_run)
qed


end
